theory Spec2Isabelle
  imports Main "HOL-Library.AList"
begin

section \<open>JavaScript values\<close>

text \<open>
  The client handles JSON documents and the two absent values of JavaScript. The client
  never computes with a number: it tests it and converts it to a string, so a number
  is held as the text JavaScript prints for it (\<open>1545\<close>, \<open>0.5\<close>, \<open>1e+21\<close>). An object is an
  association list in the order in which its properties are enumerated. \<open>Native\<close> stands
  for a built-in method found on a prototype; a payload holds none.
\<close>

datatype jsval =
    Undefined
  | Null
  | Bool bool
  | Num string
  | Str string
  | Arr "jsval list"
  | Obj "(string \<times> jsval) list"
  | Native string

type_synonym jsobj = "(string \<times> jsval) list"

datatype js_error =
    TypeError
  | Error string
  | RestError string "nat option"

text \<open>The test \<open>if (v)\<close>; the falsy numbers are zero and \<open>NaN\<close>.\<close>

fun truthy :: "jsval \<Rightarrow> bool" where
  "truthy Undefined = False"
| "truthy Null = False"
| "truthy (Bool b) = b"
| "truthy (Num n) = (n \<noteq> ''0'' \<and> n \<noteq> ''NaN'')"
| "truthy (Str s) = (s \<noteq> [])"
| "truthy (Arr xs) = True"
| "truthy (Obj ps) = True"
| "truthy (Native f) = True"

text \<open>
  String conversion, as a template literal \<open>`${v}`\<close> and \<open>new Error(v)\<close> perform it. An
  array joins the conversions of its elements. An object without a \<open>toString\<close> field of
  its own inherits the conversion to \<open>[object Object]\<close>; with such a field, which in a
  payload is no function, the conversion throws.
\<close>

fun to_string :: "jsval \<Rightarrow> js_error + string"
  and joined :: "jsval list \<Rightarrow> js_error + string" where
  "to_string Undefined = Inr ''undefined''"
| "to_string Null = Inr ''null''"
| "to_string (Bool b) = Inr (if b then ''true'' else ''false'')"
| "to_string (Num n) = Inr n"
| "to_string (Str s) = Inr s"
| "to_string (Arr xs) = joined xs"
| "to_string (Obj ps) =
     (if map_of ps ''toString'' = None then Inr ''[object Object]'' else Inl TypeError)"
| "to_string (Native f) = Inr (''function '' @ f @ ''() { [native code] }'')"
| "joined [] = Inr []"
| "joined (x # xs) =
     (case (if x = Undefined \<or> x = Null then Inr [] else to_string x) of
        Inl ex \<Rightarrow> Inl ex
      | Inr s \<Rightarrow>
          if xs = [] then Inr s
          else (case joined xs of Inl ex \<Rightarrow> Inl ex | Inr t \<Rightarrow> Inr (s @ CHR '','' # t)))"

text \<open>
  A property read \<open>v.k\<close> or \<open>v[k]\<close>. Reading from \<open>undefined\<close> or \<open>null\<close> throws. The
  client reads \<open>message\<close>, \<open>link\<close>, \<open>transId\<close> and the field names of a payload; of
  these only \<open>link\<close> exists on a prototype (\<open>String.prototype.link\<close>). Indices and
  \<open>length\<close> of arrays and strings are not modelled: no rule of the client depends on
  their value.
\<close>

fun get_field :: "jsval \<Rightarrow> string \<Rightarrow> js_error + jsval" where
  "get_field Undefined k = Inl TypeError"
| "get_field Null k = Inl TypeError"
| "get_field (Obj ps) k = Inr (case map_of ps k of None \<Rightarrow> Undefined | Some v \<Rightarrow> v)"
| "get_field (Str s) k = Inr (if k = ''link'' then Native ''link'' else Undefined)"
| "get_field v k = Inr Undefined"

text \<open>
  Property order. A name that is an array index (a decimal numeral without leading
  zero, below \<open>2^32 - 1\<close>) is enumerated before the other names, in ascending order; the
  other names follow in the order of their creation.
\<close>

definition digit_value :: "char \<Rightarrow> nat" where
  "digit_value c = length (takeWhile (\<lambda>d. d \<noteq> c) ''0123456789'')"

definition index_value :: "string \<Rightarrow> nat" where
  "index_value k = foldl (\<lambda>n c. 10 * n + digit_value c) 0 k"

definition is_index :: "string \<Rightarrow> bool" where
  "is_index k =
     (k \<noteq> [] \<and> list_all (\<lambda>c. digit_value c < 10) k \<and> (k = ''0'' \<or> hd k \<noteq> CHR ''0'') \<and>
      index_value k < 4294967295)"

fun insert_index :: "string \<Rightarrow> jsval \<Rightarrow> jsobj \<Rightarrow> jsobj" where
  "insert_index k x [] = [(k, x)]"
| "insert_index k x (p # ps) =
     (if is_index (fst p) \<and> index_value (fst p) < index_value k
      then p # insert_index k x ps else (k, x) # p # ps)"

text \<open>
  The assignment \<open>o[k] = x\<close> on an object: an existing property keeps its place, a new
  one takes the place its name gives it.
\<close>

definition put_field :: "string \<Rightarrow> jsval \<Rightarrow> jsobj \<Rightarrow> jsobj" where
  "put_field k x ps =
     (if map_of ps k \<noteq> None then AList.update k x ps
      else if is_index k then insert_index k x ps
      else ps @ [(k, x)])"

fun set_field :: "jsval \<Rightarrow> string \<Rightarrow> jsval \<Rightarrow> jsval" where
  "set_field (Obj ps) k x = Obj (put_field k x ps)"
| "set_field v k x = v"

text \<open>\<open>Object.assign(target, source)\<close>: the source's properties in order, last write wins.\<close>

definition assign :: "jsobj \<Rightarrow> jsobj \<Rightarrow> jsobj" where
  "assign target source = fold (\<lambda>(k, v). put_field k v) source target"

definition endsWith :: "string \<Rightarrow> string \<Rightarrow> bool" where
  "endsWith s suf = (length suf \<le> length s \<and> drop (length s - length suf) s = suf)"

text \<open>
  The keys a \<open>for (key in v)\<close> loop visits: the own properties at the start of the loop
  (a property added during the loop is not visited); for an array or a string, the
  indices.
\<close>

fun digits :: "nat \<Rightarrow> string" where
  "digits n = (if n < 10 then [''0123456789'' ! n]
               else digits (n div 10) @ [''0123456789'' ! (n mod 10)])"

declare digits.simps [simp del]

fun for_in_keys :: "jsval \<Rightarrow> string list" where
  "for_in_keys (Obj ps) = remdups (map fst ps)"
| "for_in_keys (Arr xs) = map digits [0..<length xs]"
| "for_in_keys (Str s) = map digits [0..<length s]"
| "for_in_keys v = []"

section \<open>The factory\<close>

text \<open>
  The parameter object \<open>{ url:string, user:string, pass:string, [strict:bool],
  [logger:Object] }\<close>; \<open>None\<close> is a field that is \<open>undefined\<close>.
\<close>

record rest_params =
  url :: "string option"
  user :: "string option"
  pass :: "string option"
  strict :: jsval
  logger :: jsval

definition no_params :: rest_params where
  "no_params = \<lparr>url = None, user = None, pass = None, strict = Undefined, logger = Undefined\<rparr>"

text \<open>
  \<open>iControlRest\<close> checks the parameters and returns the closures \<open>transaction\<close> and
  \<open>client\<close> over the normalised parameter object; the model returns that object.
  \<open>isURL\<close> is \<open>validator.isURL\<close>, a library outside the repository; \<open>None\<close> as argument is
  a call without parameters (\<open>params || {}\<close>). The function is an ordinary one: \<open>Inl\<close> is
  an error thrown to the caller.
\<close>

definition iControlRest :: "(string \<Rightarrow> bool) \<Rightarrow> rest_params option \<Rightarrow> js_error + rest_params" where
  "iControlRest isURL arg =
     (let params = (case arg of None \<Rightarrow> no_params | Some p \<Rightarrow> p) in
      case url params of
        None \<Rightarrow> Inl (Error ''Bad params, url is missing'')
      | Some u \<Rightarrow>
          if \<not> isURL u then Inl (Error ''Bad params, url is invalid'')
          else if endsWith u ''/'' then Inl (Error ''Bad params, url can NOT end with a /'')
          else if user params = None then Inl (Error ''Bad params, user is required'')
          else if pass params = None then Inl (Error ''Bad params, pass is required'')
          else Inr (params\<lparr>strict := Bool (truthy (strict params)),
                            logger := (if truthy (logger params) then logger params else Null)\<rparr>))"

section \<open>The client\<close>

record client =
  params :: rest_params
  options :: jsobj
  transactionId :: jsval

text \<open>The constructor; \<open>None\<close> is an omitted \<open>options\<close> argument (\<open>options || {}\<close>).\<close>

definition IControlRestClient :: "rest_params \<Rightarrow> jsobj option \<Rightarrow> client" where
  "IControlRestClient p opts =
     \<lparr>params = p, options = (case opts of None \<Rightarrow> [] | Some ov \<Rightarrow> ov), transactionId = Null\<rparr>"

definition setTransactionId :: "client \<Rightarrow> jsval \<Rightarrow> client" where
  "setTransactionId this tid = this\<lparr>transactionId := tid\<rparr>"

definition isInTransactionMode :: "client \<Rightarrow> bool" where
  "isInTransactionMode this = (transactionId this \<noteq> Null)"

definition getTransactionId :: "client \<Rightarrow> js_error + jsval" where
  "getTransactionId this =
     (if \<not> isInTransactionMode this
      then Inl (Error ''Bad operation, client is not in transaction mode'')
      else Inr (transactionId this))"

subsection \<open>Errors and responses\<close>

record error_params =
  ep_message :: jsval
  ep_httpStatus :: "nat option"
  ep_client :: client

text \<open>
  The message \<open>new Error(m)\<close> gets: the conversion of \<open>m\<close> to a string, or the empty
  message when \<open>m\<close> is \<open>undefined\<close>.
\<close>

definition error_text :: "jsval \<Rightarrow> js_error + string" where
  "error_text m = (if m = Undefined then Inr [] else to_string m)"

text \<open>
  \<open>IControlRestError\<close>: \<open>super(message)\<close> sets the message, \<open>httpStatus\<close> is stored, nothing
  else is. \<open>Inl\<close> is an error thrown by the constructor, \<open>Inr\<close> the object constructed.
\<close>

definition IControlRestError :: "error_params \<Rightarrow> js_error + js_error" where
  "IControlRestError p =
     (case error_text (ep_message p) of
        Inl ex \<Rightarrow> Inl ex
      | Inr s \<Rightarrow> Inr (RestError s (ep_httpStatus p)))"

text \<open>Of the response \<open>r\<close> the client reads the status code, a number; 0 is the falsy one.\<close>

record incoming_message =
  statusCode :: nat

record response =
  res_request :: incoming_message
  res_data :: jsval
  res_client :: client

definition IControlRestResponse :: "incoming_message \<Rightarrow> jsval \<Rightarrow> client \<Rightarrow> response" where
  "IControlRestResponse r d c = \<lparr>res_request = r, res_data = d, res_client = c\<rparr>"

subsection \<open>Promises\<close>

text \<open>
  The state a promise ends in. An error thrown inside the callback of the HTTP library
  settles nothing: the promise of \<open>request\<close> stays pending for ever, \<open>Unsettled\<close> with the
  error thrown. A call of an ordinary function throws or returns; a call of an \<open>async\<close>
  function always returns a promise, which what its body throws rejects and which
  otherwise follows what the body returns.
\<close>

datatype 'a promise = Rejected js_error | Fulfilled 'a | Unsettled js_error

datatype 'a completion = Throws js_error | Returns 'a

definition async :: "js_error + 'a promise \<Rightarrow> 'a promise completion" where
  "async body = Returns (case body of Inl ex \<Rightarrow> Rejected ex | Inr p \<Rightarrow> p)"

text \<open>
  What code that awaits a promise gets: the value to go on with, or the error when it does
  not go on, because the \<open>await\<close> throws or because it never resumes.
\<close>

definition awaited :: "'a promise \<Rightarrow> js_error + 'a" where
  "awaited p = (case p of Rejected ex \<Rightarrow> Inl ex | Fulfilled v \<Rightarrow> Inr v | Unsettled ex \<Rightarrow> Inl ex)"

subsection \<open>Dispatch\<close>

record req_params =
  "method" :: string
  uri :: string
  data :: jsval
  ignoreTransaction :: jsval

text \<open>What the HTTP library hands to the callback: \<open>(e, r, obj)\<close>.\<close>

record callback_args =
  cb_e :: jsval
  cb_r :: incoming_message
  cb_obj :: jsval

text \<open>
  The network answers a request in the light of the requests made before it. The log of
  option objects handed to the HTTP library is the observable effect of the client.
\<close>

type_synonym network = "jsobj list \<Rightarrow> jsobj \<Rightarrow> callback_args"

definition field_of :: "string option \<Rightarrow> jsval" where
  "field_of f = (case f of None \<Rightarrow> Undefined | Some s \<Rightarrow> Str s)"

text \<open>A string field, or \<open>undefined\<close>, inside a template literal.\<close>

definition field_text :: "string option \<Rightarrow> string" where
  "field_text f = (case f of None \<Rightarrow> ''undefined'' | Some s \<Rightarrow> s)"

definition coordination :: string where
  "coordination = ''X-F5-REST-Coordination-Id''"

definition request_headers :: "client \<Rightarrow> req_params \<Rightarrow> jsobj" where
  "request_headers this reqParams =
     (if truthy (transactionId this) \<and> ignoreTransaction reqParams \<noteq> Bool True
      then [(coordination, transactionId this)] else [])"

definition request_options :: "client \<Rightarrow> req_params \<Rightarrow> jsobj" where
  "request_options this reqParams =
     (let computed =
        [(''method'', Str (method reqParams)),
         (''url'', Str (field_text (url (params this)) @ uri reqParams)),
         (''auth'', Obj [(''user'', field_of (user (params this))),
                         (''pass'', field_of (pass (params this)))]),
         (''headers'', Obj (request_headers this reqParams)),
         (''timeout'', Num ''2000''),
         (''json'', Bool True),
         (''strictSSL'', strict (params this))]
        @ (if truthy (data reqParams) then [(''body'', data reqParams)] else [])
      in assign (assign [] computed) (options this))"

text \<open>
  The callback of \<open>request\<close> and what it does to the promise: it rejects it with an
  \<open>IControlRestError\<close>, resolves it with a response, or throws, on a failed property
  read or a failed conversion of the message, before it gets to either.
\<close>

definition callback :: "client \<Rightarrow> callback_args \<Rightarrow> response promise" where
  "callback this cb =
     (if truthy (cb_e cb) then
        (case get_field (cb_e cb) ''message'' of
           Inl ex \<Rightarrow> Unsettled ex
         | Inr m \<Rightarrow>
             (case IControlRestError
                     \<lparr>ep_message = m, ep_httpStatus = None, ep_client = this\<rparr> of
                Inl ex \<Rightarrow> Unsettled ex
              | Inr err \<Rightarrow> Rejected err))
      else if statusCode (cb_r cb) \<noteq> 0 \<and> statusCode (cb_r cb) \<noteq> 200 then
        (case get_field (cb_obj cb) ''message'' of
           Inl ex \<Rightarrow> Unsettled ex
         | Inr m \<Rightarrow>
             (case IControlRestError
                     \<lparr>ep_message = m, ep_httpStatus = Some (statusCode (cb_r cb)),
                      ep_client = this\<rparr> of
                Inl ex \<Rightarrow> Unsettled ex
              | Inr err \<Rightarrow> Rejected err))
      else Fulfilled (IControlRestResponse (cb_r cb) (cb_obj cb) this))"

text \<open>\<open>request\<close>: the promise it returns and the log afterwards.\<close>

definition request_promise ::
  "network \<Rightarrow> client \<Rightarrow> req_params \<Rightarrow> jsobj list \<Rightarrow> response promise \<times> jsobj list" where
  "request_promise net this reqParams sent =
     (let opts = request_options this reqParams
      in (callback this (net sent opts), sent @ [opts]))"

text \<open>\<open>await request(...)\<close>, as the code after it sees it.\<close>

definition settle :: "client \<Rightarrow> callback_args \<Rightarrow> js_error + response" where
  "settle this cb = awaited (callback this cb)"

definition request ::
  "network \<Rightarrow> client \<Rightarrow> req_params \<Rightarrow> jsobj list \<Rightarrow> (js_error + response) \<times> jsobj list" where
  "request net this reqParams sent =
     (let (p, sent') = request_promise net this reqParams sent in (awaited p, sent'))"

subsection \<open>Transactions\<close>

text \<open>
  \<open>beginTransaction\<close>: its outcome as awaiting code sees it, the client afterwards and
  the log afterwards.
\<close>

definition beginTransaction ::
  "network \<Rightarrow> client \<Rightarrow> jsobj list \<Rightarrow> (js_error + unit) \<times> client \<times> jsobj list" where
  "beginTransaction net this sent =
     (if isInTransactionMode this
      then (Inl (Error ''Bad operation, client is already in transaction mode''), this, sent)
      else
        (case request net this
                \<lparr>method = ''POST'', uri = ''/mgmt/tm/transaction'', data = Obj [],
                 ignoreTransaction = Undefined\<rparr> sent of
           (Inl ex, sent') \<Rightarrow> (Inl ex, this, sent')
         | (Inr res, sent') \<Rightarrow>
             (case get_field (res_data res) ''transId'' of
                Inl ex \<Rightarrow> (Inl ex, this, sent')
              | Inr tid \<Rightarrow> (Inr (), this\<lparr>transactionId := tid\<rparr>, sent'))))"

text \<open>
  \<open>commitTransaction\<close>, an \<open>async\<close> function: what the call gives its caller, the client
  afterwards and the log afterwards. The body throws when the client is not in a
  transaction or the id does not convert to a string; otherwise it forgets the id, makes
  the request and returns its promise.
\<close>

definition commitTransaction ::
  "network \<Rightarrow> client \<Rightarrow> jsobj list \<Rightarrow> response promise completion \<times> client \<times> jsobj list" where
  "commitTransaction net this sent =
     (if \<not> isInTransactionMode this
      then (async (Inl (Error ''Bad operation, client is not in transaction mode'')),
            this, sent)
      else
        (case to_string (transactionId this) of
           Inl ex \<Rightarrow> (async (Inl ex), this, sent)
         | Inr tid \<Rightarrow>
             (let this' = this\<lparr>transactionId := Null\<rparr>;
                  (ret, sent') = request_promise net this'
                     \<lparr>method = ''PATCH'', uri = ''/mgmt/tm/transaction/'' @ tid,
                      data = Obj [(''state'', Str ''VALIDATING'')],
                      ignoreTransaction = Undefined\<rparr> sent
              in (async (Inr ret), this', sent'))))"

section \<open>Responses: expanding references\<close>

text \<open>
  \<open>url.parse\<close> belongs to the runtime, not to the repository: it is a parameter. It
  rejects an argument that is not a string. Of its result the client reads \<open>pathname\<close>
  and \<open>search\<close>, each a string or \<open>null\<close> (\<open>None\<close>).
\<close>

record url_object =
  pathname :: "string option"
  search :: "string option"

type_synonym url_parser = "string \<Rightarrow> js_error + url_object"

definition urlmod_parse :: "url_parser \<Rightarrow> jsval \<Rightarrow> js_error + url_object" where
  "urlmod_parse parse v = (case v of Str s \<Rightarrow> parse s | _ \<Rightarrow> Inl TypeError)"

text \<open>A string, or \<open>null\<close>, inside a template literal.\<close>

definition null_text :: "string option \<Rightarrow> string" where
  "null_text f = (case f of None \<Rightarrow> ''null'' | Some s \<Rightarrow> s)"

definition substr0 :: "string \<Rightarrow> nat \<Rightarrow> string" where
  "substr0 s n = take n s"

text \<open>
  The loop of \<open>expand\<close> over the keys of \<open>data\<close>. The value of a key is read from
  \<open>this.data\<close>: \<open>own = None\<close> when \<open>data\<close> is that very object, so that the read sees
  the writes of the loop, and \<open>own = Some d\<close> when \<open>this.data\<close> is another value \<open>d\<close>.
  The result is the outcome as awaiting code sees it, \<open>data\<close> afterwards and the log
  afterwards.
\<close>

fun expand_loop ::
  "url_parser \<Rightarrow> network \<Rightarrow> client \<Rightarrow> jsval option \<Rightarrow> string list \<Rightarrow> jsval \<Rightarrow> jsobj list
   \<Rightarrow> (js_error + unit) \<times> jsval \<times> jsobj list" where
  "expand_loop parse net cli own [] d sent = (Inr (), d, sent)"
| "expand_loop parse net cli own (key # keys) d sent =
     (case get_field (case own of None \<Rightarrow> d | Some other \<Rightarrow> other) key of
        Inl ex \<Rightarrow> (Inl ex, d, sent)
      | Inr val \<Rightarrow>
          if endsWith key ''Reference'' \<and> truthy val then
            (case get_field val ''link'' of
               Inl ex \<Rightarrow> (Inl ex, d, sent)
             | Inr link \<Rightarrow>
                 if link \<noteq> Undefined then
                   (case urlmod_parse parse link of
                      Inl ex \<Rightarrow> (Inl ex, d, sent)
                    | Inr u \<Rightarrow>
                        (case request net cli
                                \<lparr>method = ''GET'',
                                 uri = null_text (pathname u) @ null_text (search u),
                                 data = Undefined, ignoreTransaction = Bool True\<rparr> sent of
                           (Inl ex, sent') \<Rightarrow> (Inl ex, d, sent')
                         | (Inr expanded, sent') \<Rightarrow>
                             expand_loop parse net cli own keys
                               (set_field d (substr0 key (length key - length ''Reference''))
                                  (res_data expanded))
                               sent'))
                 else expand_loop parse net cli own keys d sent)
          else expand_loop parse net cli own keys d sent)"

text \<open>
  \<open>expand(data)\<close>. The argument \<open>None\<close> is a call without argument or with the
  response's own payload object; \<open>Some d\<close> passes another value (\<open>data || this.data\<close>
  falls back to the own payload when \<open>d\<close> is falsy).
\<close>

definition expand ::
  "url_parser \<Rightarrow> network \<Rightarrow> response \<Rightarrow> jsval option \<Rightarrow> jsobj list
   \<Rightarrow> (js_error + unit) \<times> jsval \<times> jsobj list" where
  "expand parse net this arg sent =
     (case arg of
        None \<Rightarrow>
          expand_loop parse net (res_client this) None
            (for_in_keys (res_data this)) (res_data this) sent
      | Some d \<Rightarrow>
          if truthy d
          then expand_loop parse net (res_client this) (Some (res_data this))
                 (for_in_keys d) d sent
          else expand_loop parse net (res_client this) None
                 (for_in_keys (res_data this)) (res_data this) sent)"

section \<open>Reading requests and payloads\<close>

text \<open>The coordination header of an option object: \<open>opts.headers[coordination]\<close>.\<close>

definition coordination_header :: "jsobj \<Rightarrow> jsval option" where
  "coordination_header opts =
     (case map_of opts ''headers'' of Some (Obj hs) \<Rightarrow> map_of hs coordination | _ \<Rightarrow> None)"

text \<open>A call of an ordinary function: what it throws, it throws to its caller.\<close>

definition ordinary :: "js_error + 'a \<Rightarrow> 'a completion" where
  "ordinary body = (case body of Inl ex \<Rightarrow> Throws ex | Inr v \<Rightarrow> Returns v)"

text \<open>
  A reference field in the words of the specification: the name ends with the reserved
  suffix and the value is an object with a defined \<open>link\<close>.
\<close>

definition reference_field :: "string \<times> jsval \<Rightarrow> bool" where
  "reference_field f =
     (endsWith (fst f) ''Reference'' \<and>
      (case snd f of Obj qs \<Rightarrow> get_field (Obj qs) ''link'' \<noteq> Inr Undefined | _ \<Rightarrow> False))"

definition stripped :: "string \<Rightarrow> string" where
  "stripped key = take (length key - length ''Reference'') key"

text \<open>
  The relative URI of a link in the words of the specification, formed from its path and
  query components: the path, followed by the query when there is one.
\<close>

definition path_and_query :: "url_object \<Rightarrow> string" where
  "path_and_query u =
     (case pathname u of None \<Rightarrow> [] | Some p \<Rightarrow> p) @ (case search u of None \<Rightarrow> [] | Some q \<Rightarrow> q)"

definition link_uri :: "url_parser \<Rightarrow> jsval \<Rightarrow> string" where
  "link_uri parse v =
     (case get_field v ''link'' of
        Inr (Str s) \<Rightarrow> (case parse s of Inr u \<Rightarrow> path_and_query u | Inl ex \<Rightarrow> [])
      | _ \<Rightarrow> [])"

text \<open>A value with a defined \<open>link\<close>, of whatever kind the value and the link are.\<close>

definition has_link :: "jsval \<Rightarrow> bool" where
  "has_link v = (truthy v \<and> get_field v ''link'' \<noteq> Inr Undefined)"

text \<open>A value whose \<open>link\<close> is a string that the parser accepts and that has a path and a query.\<close>

definition well_linked :: "url_parser \<Rightarrow> jsval \<Rightarrow> bool" where
  "well_linked parse v =
     (case get_field v ''link'' of
        Inr (Str s) \<Rightarrow>
          (case parse s of
             Inr u \<Rightarrow> pathname u \<noteq> None \<and> search u \<noteq> None
           | Inl ex \<Rightarrow> False)
      | _ \<Rightarrow> False)"

definition auxiliary_get :: "string \<Rightarrow> req_params" where
  "auxiliary_get u =
     \<lparr>method = ''GET'', uri = u, data = Undefined, ignoreTransaction = Bool True\<rparr>"

text \<open>
  The requests that expanding the payload \<open>ps\<close> calls for: one \<open>GET\<close> that ignores the
  transaction for each reference field, in the order of the payload.
\<close>

definition reference_requests :: "url_parser \<Rightarrow> client \<Rightarrow> jsobj \<Rightarrow> jsobj list" where
  "reference_requests parse cli ps =
     map (\<lambda>f. request_options cli (auxiliary_get (link_uri parse (snd f))))
       (filter reference_field ps)"

text \<open>An answer of the network that is a success: no transport error, status 200 (or 0).\<close>

definition success :: "callback_args \<Rightarrow> bool" where
  "success cb =
     (\<not> truthy (cb_e cb) \<and> (statusCode (cb_r cb) = 200 \<or> statusCode (cb_r cb) = 0))"

text \<open>
  A sequence of requests made one by one: whether the network answers each with a
  success, and the parsed bodies it returns.
\<close>

fun answered :: "network \<Rightarrow> jsobj list \<Rightarrow> jsobj list \<Rightarrow> bool" where
  "answered net sent [] = True"
| "answered net sent (q # qs) = (success (net sent q) \<and> answered net (sent @ [q]) qs)"

fun replies :: "network \<Rightarrow> jsobj list \<Rightarrow> jsobj list \<Rightarrow> jsval list" where
  "replies net sent [] = []"
| "replies net sent (q # qs) = cb_obj (net sent q) # replies net (sent @ [q]) qs"

subsection \<open>Values for the examples\<close>

definition example_params :: rest_params where
  "example_params =
     \<lparr>url = Some ''https://192.168.1.245'', user = Some ''admin'', pass = Some ''secret'',
      strict = Bool False, logger = Null\<rparr>"

definition always_reply :: "callback_args \<Rightarrow> network" where
  "always_reply cb sent opts = cb"

definition replied :: "nat \<Rightarrow> jsval \<Rightarrow> callback_args" where
  "replied code body = \<lparr>cb_e = Null, cb_r = \<lparr>statusCode = code\<rparr>, cb_obj = body\<rparr>"

definition get_pools :: req_params where
  "get_pools = \<lparr>method = ''GET'', uri = ''/mgmt/tm/ltm/pool'', data = Undefined,
                 ignoreTransaction = Undefined\<rparr>"

definition response_of :: "client \<Rightarrow> jsval \<Rightarrow> response" where
  "response_of c d = \<lparr>res_request = \<lparr>statusCode = 200\<rparr>, res_data = d, res_client = c\<rparr>"

text \<open>A validator for the examples: it accepts an \<open>https\<close> URL with a host.\<close>

definition accept_https :: "string \<Rightarrow> bool" where
  "accept_https u = (take 8 u = ''https://'' \<and> 8 < length u)"

text \<open>
  A parser for the examples, which does what \<open>url.parse\<close> does to an \<open>https\<close> link made of
  a host, a path and a query: the path runs up to the question mark and is \<open>/\<close> when the
  link has none; the query starts at the question mark and is \<open>null\<close> when there is none.
  The empty link has neither path nor query.
\<close>

definition in_host :: "char \<Rightarrow> bool" where
  "in_host c = (c \<noteq> CHR ''/'' \<and> c \<noteq> CHR ''?'')"

definition in_path :: "char \<Rightarrow> bool" where
  "in_path c = (c \<noteq> CHR ''?'')"

definition https_parse :: url_parser where
  "https_parse s =
     (if s = [] then Inr \<lparr>pathname = None, search = None\<rparr>
      else
        let rest = dropWhile in_host (drop 8 s);
            path = takeWhile in_path rest;
            query = dropWhile in_path rest
        in Inr \<lparr>pathname = Some (if path = [] then ''/'' else path),
                 search = (if query = [] then None else Some query)\<rparr>)"

text \<open>A parser that rejects every link.\<close>

definition reject_parse :: url_parser where
  "reject_parse s = Inl (Error ''URI malformed'')"

text \<open>
  The virtual server of the source's documentation, reduced to five fields, and an
  appliance that answers with the pool and with the policies.
\<close>

definition pool_link :: jsval where
  "pool_link = Obj [(''link'', Str ''https://localhost/mgmt/tm/ltm/pool/p2?ver=13.1.1.2'')]"

definition policies_link :: jsval where
  "policies_link =
     Obj [(''link'', Str ''https://localhost/mgmt/tm/ltm/virtual/v1/policies?ver=13.1.1.2'')]"

definition bare_link :: jsval where
  "bare_link = Obj [(''link'', Str ''https://localhost/mgmt/tm/ltm/pool/p2'')]"

definition virtual_server :: jsobj where
  "virtual_server =
     [(''kind'', Str ''tm:ltm:virtual:virtualstate''),
      (''pool'', Str ''/Common/p2''),
      (''poolReference'', pool_link),
      (''vsIndex'', Num ''200''),
      (''policiesReference'', policies_link)]"

definition pool_p2 :: jsval where
  "pool_p2 = Obj [(''kind'', Str ''tm:ltm:pool:poolstate''), (''name'', Str ''p2'')]"

definition policies_v1 :: jsval where
  "policies_v1 = Obj [(''kind'', Str ''tm:ltm:virtual:policies:policiescollectionstate'')]"

definition appliance :: network where
  "appliance sent opts =
     (if map_of opts ''url'' = Some (Str ''https://192.168.1.245/mgmt/tm/ltm/pool/p2?ver=13.1.1.2'')
      then replied 200 pool_p2 else replied 200 policies_v1)"

section \<open>Option objects\<close>

lemma map_of_insert_index:
  "map_of ps k = None \<Longrightarrow> map_of (insert_index k x ps) = (map_of ps)(k \<mapsto> x)"
  by (induction ps) (auto simp: fun_eq_iff)

lemma map_of_put_field: "map_of (put_field k x ps) = (map_of ps)(k \<mapsto> x)"
  by (auto simp: put_field_def update_conv' map_of_insert_index fun_eq_iff map_add_def
      split: option.splits)

lemma map_of_assign: "map_of (assign t s) = map_of t ++ map_of (rev s)"
  unfolding assign_def
proof (induction s arbitrary: t)
  case Nil
  show ?case by simp
next
  case (Cons p s)
  obtain k v where p: "p = (k, v)" by (cases p)
  show ?case
    by (simp add: p Cons map_of_put_field fun_eq_iff map_add_def split: option.splits)
qed

lemma map_of_rev_None: "map_of s k = None \<Longrightarrow> map_of (rev s) k = None"
  by (simp add: map_of_eq_None_iff)

text \<open>An option the overlay does not set reaches the HTTP library as the client computed it.\<close>

lemma options_not_overridden:
  assumes "map_of (options this) k = None"
  shows "map_of (request_options this rp) k =
     map_of ([(''method'', Str (method rp)),
         (''url'', Str (field_text (url (params this)) @ uri rp)),
         (''auth'', Obj [(''user'', field_of (user (params this))),
                         (''pass'', field_of (pass (params this)))]),
         (''headers'', Obj (request_headers this rp)),
         (''timeout'', Num ''2000''),
         (''json'', Bool True),
         (''strictSSL'', strict (params this))]
        @ (if truthy (data rp) then [(''body'', data rp)] else [])) k"
  using map_of_rev_None [OF assms]
  by (simp add: request_options_def Let_def map_of_assign map_add_def)

lemma headers_not_overridden:
  assumes "map_of (options this) ''headers'' = None"
  shows "map_of (request_options this rp) ''headers'' = Some (Obj (request_headers this rp))"
  by (simp add: options_not_overridden [OF assms])

text \<open>The option object of a client without overlay, for the examples.\<close>

lemma plain_options:
  assumes "options this = []"
  shows "request_options this rp =
     [(''method'', Str (method rp)),
      (''url'', Str (field_text (url (params this)) @ uri rp)),
      (''auth'', Obj [(''user'', field_of (user (params this))),
                      (''pass'', field_of (pass (params this)))]),
      (''headers'', Obj (request_headers this rp)),
      (''timeout'', Num ''2000''),
      (''json'', Bool True),
      (''strictSSL'', strict (params this))]
     @ (if truthy (data rp) then [(''body'', data rp)] else [])"
  by (simp add: request_options_def assms assign_def put_field_def is_index_def
      digit_value_def)

lemma request_sent: "snd (request net this rp sent) = sent @ [request_options this rp]"
  by (simp add: request_def request_promise_def Let_def)

lemma request_outcome:
  "fst (request net this rp sent) = settle this (net sent (request_options this rp))"
  by (simp add: request_def request_promise_def settle_def Let_def)

section \<open>The coordination header\<close>

text \<open>
  C1 (amended). For every dispatch of a client whose option overlay does not set
  \<open>headers\<close>, the option object handed to the HTTP library is the one the client
  computes, and: when the transaction id is truthy and \<open>ignoreTransaction\<close> is not
  \<open>true\<close>, its coordination header is the transaction id; when \<open>ignoreTransaction\<close> is
  \<open>true\<close> or the transaction id is \<open>null\<close>, it has no coordination header.
\<close>

theorem dispatch_coordination_header:
  assumes "map_of (options this) ''headers'' = None"
  shows "snd (request net this rp sent) = sent @ [request_options this rp] \<and>
         (truthy (transactionId this) \<and> ignoreTransaction rp \<noteq> Bool True
            \<longrightarrow> coordination_header (request_options this rp) = Some (transactionId this)) \<and>
         (ignoreTransaction rp = Bool True \<or> transactionId this = Null
            \<longrightarrow> coordination_header (request_options this rp) = None)"
  by (auto simp: request_sent coordination_header_def headers_not_overridden [OF assms]
      request_headers_def)

theorem dispatch_coordination_header_witness:
  "map_of (options (setTransactionId (IControlRestClient example_params None) (Num ''1545'')))
     ''headers'' = None
   \<and> truthy (Num ''1545'') \<and> ignoreTransaction get_pools \<noteq> Bool True
   \<and> coordination_header (request_options
        (setTransactionId (IControlRestClient example_params None) (Num ''1545'')) get_pools)
      = Some (Num ''1545'')
   \<and> coordination_header (request_options
        (setTransactionId (IControlRestClient example_params None) (Num ''1545''))
        (get_pools\<lparr>ignoreTransaction := Bool True\<rparr>)) = None"
  using dispatch_coordination_header
     [of "setTransactionId (IControlRestClient example_params None) (Num ''1545'')" _ get_pools]
    dispatch_coordination_header
     [of "setTransactionId (IControlRestClient example_params None) (Num ''1545'')" _
         "get_pools\<lparr>ignoreTransaction := Bool True\<rparr>"]
  by (simp add: setTransactionId_def IControlRestClient_def get_pools_def)

text \<open>
  Without the provisos the statement fails: a client whose transaction id is the empty
  string is in transaction mode and sends no header, and an overlay that sets \<open>headers\<close>,
  here to ask for JSON, replaces the computed headers of a client in a transaction.
\<close>

theorem dispatch_coordination_header_counterexample:
  "isInTransactionMode (setTransactionId (IControlRestClient example_params None) (Str ''''))
   \<and> ignoreTransaction get_pools \<noteq> Bool True
   \<and> coordination_header (request_options
        (setTransactionId (IControlRestClient example_params None) (Str '''')) get_pools) = None
   \<and> isInTransactionMode
        (setTransactionId
           (IControlRestClient example_params
              (Some [(''headers'', Obj [(''Accept'', Str ''application/json'')])]))
           (Num ''1545''))
   \<and> coordination_header (request_options
        (setTransactionId
           (IControlRestClient example_params
              (Some [(''headers'', Obj [(''Accept'', Str ''application/json'')])]))
           (Num ''1545'')) get_pools) = None"
  by (simp add: setTransactionId_def IControlRestClient_def get_pools_def isInTransactionMode_def
      coordination_header_def map_of_assign request_options_def request_headers_def
      coordination_def)

section \<open>Outcome of a dispatch\<close>






section \<open>The transaction lifecycle\<close>

text \<open>
  C3 (amended). For every \<open>commitTransaction\<close> call made while the client is in
  transaction mode, with an id that converts to the string \<open>tid\<close>, on a client whose option
  overlay sets none of \<open>method\<close>, \<open>url\<close>, \<open>headers\<close> and \<open>body\<close>: the id is captured, the
  client is Inactive from then on whatever the network answers, and the one request
  made is the one the Inactive client computes; it is a \<open>PATCH\<close> of the base URL followed
  by \<open>/mgmt/tm/transaction/tid\<close> with body \<open>{state: "VALIDATING"}\<close> and without coordination
  header. The call returns the promise of that request.
\<close>

theorem commit_dispatch:
  assumes active: "isInTransactionMode this"
    and converts: "to_string (transactionId this) = Inr tid"
    and overlay: "map_of (options this) ''method'' = None" "map_of (options this) ''url'' = None"
      "map_of (options this) ''headers'' = None" "map_of (options this) ''body'' = None"
    and opts: "opts = request_options (this\<lparr>transactionId := Null\<rparr>)
        \<lparr>method = ''PATCH'', uri = ''/mgmt/tm/transaction/'' @ tid,
         data = Obj [(''state'', Str ''VALIDATING'')], ignoreTransaction = Undefined\<rparr>"
  shows "commitTransaction net this sent =
           (Returns (callback (this\<lparr>transactionId := Null\<rparr>) (net sent opts)),
            this\<lparr>transactionId := Null\<rparr>, sent @ [opts]) \<and>
         map_of opts ''method'' = Some (Str ''PATCH'') \<and>
         map_of opts ''url'' =
           Some (Str (field_text (url (params this)) @ ''/mgmt/tm/transaction/'' @ tid)) \<and>
         map_of opts ''body'' = Some (Obj [(''state'', Str ''VALIDATING'')]) \<and>
         coordination_header opts = None"
proof -
  let ?this' = "this\<lparr>transactionId := Null\<rparr>"
  have "commitTransaction net this sent =
           (Returns (callback ?this' (net sent opts)), ?this', sent @ [opts])"
    using active converts
    by (simp add: commitTransaction_def request_promise_def async_def Let_def opts)
  moreover have "map_of opts ''method'' = Some (Str ''PATCH'')"
    using overlay(1) by (simp add: opts options_not_overridden)
  moreover have "map_of opts ''url'' =
      Some (Str (field_text (url (params this)) @ ''/mgmt/tm/transaction/'' @ tid))"
    using overlay(2) by (simp add: opts options_not_overridden)
  moreover have "map_of opts ''body'' = Some (Obj [(''state'', Str ''VALIDATING'')])"
    using overlay(4) by (simp add: opts options_not_overridden)
  moreover have "coordination_header opts = None"
    using overlay(3)
    by (simp add: opts coordination_header_def headers_not_overridden request_headers_def)
  ultimately show ?thesis by simp
qed

theorem commit_dispatch_witness:
  "isInTransactionMode (setTransactionId (IControlRestClient example_params None) (Num ''1545''))
   \<and> to_string (Num ''1545'') = Inr ''1545''
   \<and> commitTransaction (always_reply (replied 200 (Obj [(''state'', Str ''COMPLETED'')])))
        (setTransactionId (IControlRestClient example_params None) (Num ''1545'')) []
      = (Returns (Fulfilled
           \<lparr>res_request = \<lparr>statusCode = 200\<rparr>,
            res_data = Obj [(''state'', Str ''COMPLETED'')],
            res_client = IControlRestClient example_params None\<rparr>),
         IControlRestClient example_params None,
         [[(''method'', Str ''PATCH''),
           (''url'', Str ''https://192.168.1.245/mgmt/tm/transaction/1545''),
           (''auth'', Obj [(''user'', Str ''admin''), (''pass'', Str ''secret'')]),
           (''headers'', Obj []), (''timeout'', Num ''2000''), (''json'', Bool True),
           (''strictSSL'', Bool False),
           (''body'', Obj [(''state'', Str ''VALIDATING'')])]])"
  using commit_dispatch [OF _ _ _ _ _ _ refl,
      of "setTransactionId (IControlRestClient example_params None) (Num ''1545'')" "''1545''"
         "always_reply (replied 200 (Obj [(''state'', Str ''COMPLETED'')]))" "[]"]
  by (simp add: isInTransactionMode_def setTransactionId_def IControlRestClient_def
      example_params_def always_reply_def replied_def callback_def IControlRestResponse_def
      plain_options request_headers_def field_of_def field_text_def)

text \<open>
  Without the provisos the statement fails. For a client constructed with an overlay,
  the overlay's \<open>headers\<close>, \<open>method\<close>, \<open>url\<close> and \<open>body\<close> replace the computed ones on the
  commit request as on every other: it can carry a coordination header, be a \<open>DELETE\<close>, go
  elsewhere, carry another body. And an id that does not convert to a string, here an
  object with a \<open>toString\<close> field, makes the call fail before the state changes: the
  client stays in transaction mode and nothing is sent.
\<close>

theorem commit_dispatch_counterexample:
  "map coordination_header
     (snd (snd (commitTransaction (always_reply (replied 200 (Obj [])))
        (setTransactionId
           (IControlRestClient example_params
              (Some [(''headers'', Obj [(''X-F5-REST-Coordination-Id'', Num ''1545'')])]))
           (Num ''1545'')) [])))
     = [Some (Num ''1545'')]
   \<and> map (\<lambda>opts. map_of opts ''method'')
     (snd (snd (commitTransaction (always_reply (replied 200 (Obj [])))
        (setTransactionId
           (IControlRestClient example_params (Some [(''method'', Str ''DELETE'')]))
           (Num ''1545'')) [])))
     = [Some (Str ''DELETE'')]
   \<and> map (\<lambda>opts. map_of opts ''url'')
     (snd (snd (commitTransaction (always_reply (replied 200 (Obj [])))
        (setTransactionId
           (IControlRestClient example_params (Some [(''url'', Str ''https://10.0.0.1/'')]))
           (Num ''1545'')) [])))
     = [Some (Str ''https://10.0.0.1/'')]
   \<and> map (\<lambda>opts. map_of opts ''body'')
     (snd (snd (commitTransaction (always_reply (replied 200 (Obj [])))
        (setTransactionId
           (IControlRestClient example_params (Some [(''body'', Obj [])]))
           (Num ''1545'')) [])))
     = [Some (Obj [])]
   \<and> isInTransactionMode
        (setTransactionId (IControlRestClient example_params None)
           (Obj [(''toString'', Str ''1545'')]))
   \<and> commitTransaction (always_reply (replied 200 (Obj [])))
        (setTransactionId (IControlRestClient example_params None)
           (Obj [(''toString'', Str ''1545'')])) []
     = (Returns (Rejected TypeError),
        setTransactionId (IControlRestClient example_params None)
           (Obj [(''toString'', Str ''1545'')]), [])"
  by (simp add: isInTransactionMode_def setTransactionId_def
      IControlRestClient_def coordination_header_def coordination_def request_options_def
      map_of_assign commitTransaction_def request_promise_def async_def Let_def)

text \<open>
  C5 (amended). For every client in transaction mode, \<open>beginTransaction\<close> fails with the
  error \<open>Bad operation, client is already in transaction mode\<close>, makes no network call
  and leaves the client, and so its transaction id, as it was.
\<close>

theorem begin_while_active:
  assumes "isInTransactionMode this"
  shows "beginTransaction net this sent =
           (Inl (Error ''Bad operation, client is already in transaction mode''), this, sent)"
  using assms by (simp add: beginTransaction_def)

theorem begin_while_active_witness:
  "isInTransactionMode (setTransactionId (IControlRestClient example_params None) (Num ''1545''))
   \<and> beginTransaction (always_reply (replied 200 (Obj [(''transId'', Num ''1546'')])))
        (setTransactionId (IControlRestClient example_params None) (Num ''1545'')) []
     = (Inl (Error ''Bad operation, client is already in transaction mode''),
        setTransactionId (IControlRestClient example_params None) (Num ''1545''), [])"
  using begin_while_active
     [of "setTransactionId (IControlRestClient example_params None) (Num ''1545'')"
         "always_reply (replied 200 (Obj [(''transId'', Num ''1546'')]))" "[]"]
  by (simp add: isInTransactionMode_def setTransactionId_def)

text \<open>The message of the error is not the text \<open>already in transaction mode\<close> alone.\<close>

theorem begin_while_active_counterexample:
  "isInTransactionMode (setTransactionId (IControlRestClient example_params None) (Num ''1545''))
   \<and> fst (beginTransaction (always_reply (replied 200 (Obj [(''transId'', Num ''1546'')])))
        (setTransactionId (IControlRestClient example_params None) (Num ''1545'')) [])
     \<noteq> Inl (Error ''already in transaction mode'')"
  by (simp add: isInTransactionMode_def setTransactionId_def beginTransaction_def)

text \<open>
  C6 (amended). For every client that is not in transaction mode, \<open>commitTransaction\<close>
  fails with the error \<open>Bad operation, client is not in transaction mode\<close> before
  anything is sent: the log and the client are as they were. The function is \<open>async\<close>:
  the call itself returns, and the failure is the rejection of the promise returned.
\<close>

theorem commit_while_inactive:
  assumes "\<not> isInTransactionMode this"
  shows "commitTransaction net this sent =
           (Returns (Rejected (Error ''Bad operation, client is not in transaction mode'')),
            this, sent)"
  using assms by (simp add: commitTransaction_def async_def)

theorem commit_while_inactive_witness:
  "\<not> isInTransactionMode (IControlRestClient example_params None)
   \<and> commitTransaction (always_reply (replied 200 (Obj [])))
        (IControlRestClient example_params None) []
     = (Returns (Rejected (Error ''Bad operation, client is not in transaction mode'')),
        IControlRestClient example_params None, [])"
  using commit_while_inactive
     [of "IControlRestClient example_params None" "always_reply (replied 200 (Obj []))" "[]"]
  by (simp add: isInTransactionMode_def IControlRestClient_def)

text \<open>
  The call does not throw to its caller, as the precondition of the ordinary function
  \<open>getTransactionId\<close> does, with the same message, on the same client.
\<close>

theorem commit_while_inactive_counterexample:
  "\<not> isInTransactionMode (IControlRestClient example_params None)
   \<and> fst (commitTransaction (always_reply (replied 200 (Obj [])))
        (IControlRestClient example_params None) [])
     \<noteq> Throws (Error ''Bad operation, client is not in transaction mode'')
   \<and> ordinary (getTransactionId (IControlRestClient example_params None))
     = Throws (Error ''Bad operation, client is not in transaction mode'')"
  by (simp add: isInTransactionMode_def IControlRestClient_def commitTransaction_def async_def
      ordinary_def getTransactionId_def)

text \<open>
  C10 (amended). For every client whose transaction id is falsy but not \<open>null\<close> and whose
  option overlay does not set \<open>headers\<close>: \<open>isInTransactionMode\<close> holds, so that
  \<open>getTransactionId\<close> returns the id and \<open>beginTransaction\<close> refuses to start, and yet no
  request of the client carries a coordination header. The predicate compares the id with
  \<open>null\<close>; the header is added when the id is truthy.
\<close>

theorem falsy_transaction_id:
  assumes falsy: "\<not> truthy (transactionId this)" and nonnull: "transactionId this \<noteq> Null"
    and overlay: "map_of (options this) ''headers'' = None"
  shows "isInTransactionMode this \<and>
         getTransactionId this = Inr (transactionId this) \<and>
         beginTransaction net this sent =
           (Inl (Error ''Bad operation, client is already in transaction mode''), this, sent) \<and>
         snd (request net this rp sent) = sent @ [request_options this rp] \<and>
         coordination_header (request_options this rp) = None"
  using falsy nonnull
  by (simp add: isInTransactionMode_def getTransactionId_def beginTransaction_def request_sent
      coordination_header_def headers_not_overridden [OF overlay] request_headers_def)

text \<open>
  The two ways into that state: a response to the begin request without \<open>transId\<close>, and
  \<open>setTransactionId\<close> with the empty string.
\<close>

theorem falsy_transaction_id_witness:
  "fst (snd (beginTransaction (always_reply (replied 200 (Obj [])))
               (IControlRestClient example_params None) []))
     = setTransactionId (IControlRestClient example_params None) Undefined
   \<and> isInTransactionMode (setTransactionId (IControlRestClient example_params None) Undefined)
   \<and> getTransactionId (setTransactionId (IControlRestClient example_params None) Undefined)
       = Inr Undefined
   \<and> coordination_header (request_options
        (setTransactionId (IControlRestClient example_params None) Undefined) get_pools) = None
   \<and> isInTransactionMode (setTransactionId (IControlRestClient example_params None) (Str ''''))
   \<and> getTransactionId (setTransactionId (IControlRestClient example_params None) (Str ''''))
       = Inr (Str '''')
   \<and> coordination_header (request_options
        (setTransactionId (IControlRestClient example_params None) (Str '''')) get_pools) = None"
  using
    falsy_transaction_id
      [of "setTransactionId (IControlRestClient example_params None) Undefined" _ _ get_pools]
    falsy_transaction_id
      [of "setTransactionId (IControlRestClient example_params None) (Str '''')" _ _ get_pools]
  by (simp add: setTransactionId_def IControlRestClient_def beginTransaction_def
      isInTransactionMode_def request_def request_promise_def Let_def always_reply_def
      replied_def callback_def awaited_def IControlRestResponse_def)

text \<open>With an overlay that sets \<open>headers\<close>, such a client does send a coordination header.\<close>

theorem falsy_transaction_id_counterexample:
  "\<not> truthy (transactionId
        (setTransactionId
          (IControlRestClient example_params
             (Some [(''headers'', Obj [(''X-F5-REST-Coordination-Id'', Num ''1545'')])]))
          (Str '''')))
   \<and> isInTransactionMode
        (setTransactionId
          (IControlRestClient example_params
             (Some [(''headers'', Obj [(''X-F5-REST-Coordination-Id'', Num ''1545'')])]))
          (Str ''''))
   \<and> coordination_header (request_options
        (setTransactionId
          (IControlRestClient example_params
             (Some [(''headers'', Obj [(''X-F5-REST-Coordination-Id'', Num ''1545'')])]))
          (Str '''')) get_pools) = Some (Num ''1545'')"
  by (simp add: setTransactionId_def IControlRestClient_def isInTransactionMode_def
      coordination_header_def coordination_def request_options_def request_headers_def
      map_of_assign)

section \<open>The factory's checks\<close>

text \<open>
  C7 (amended). The parameters of every client the factory returns have a base URL that
  the validator accepts and that does not end with a slash, and defined \<open>user\<close> and \<open>pass\<close>
  fields, which may be empty strings. For every parameter object that has no \<open>url\<close>, a
  \<open>url\<close> the validator rejects, a \<open>url\<close> ending with a slash, no \<open>user\<close> or no \<open>pass\<close>, the
  factory throws an error whose message begins with \<open>Bad params\<close>; it makes no request,
  as it has no access to the network.
\<close>

theorem factory_invariant:
  "(iControlRest isURL arg = Inr p \<longrightarrow>
      (\<exists>raw u usr pw. arg = Some raw \<and> url raw = Some u \<and> user raw = Some usr \<and>
         pass raw = Some pw \<and> isURL u \<and> \<not> endsWith u ''/'' \<and>
         url (params (IControlRestClient p opts)) = Some u \<and>
         user (params (IControlRestClient p opts)) = Some usr \<and>
         pass (params (IControlRestClient p opts)) = Some pw)) \<and>
   (arg = None \<or>
    (\<exists>raw. arg = Some raw \<and>
       (url raw = None \<or> (\<exists>u. url raw = Some u \<and> (\<not> isURL u \<or> endsWith u ''/'')) \<or>
        user raw = None \<or> pass raw = None))
      \<longrightarrow> (\<exists>msg. iControlRest isURL arg = Inl (Error (''Bad params, '' @ msg))))"
  by (auto simp: iControlRest_def Let_def no_params_def IControlRestClient_def
      split: option.splits if_splits)

theorem factory_invariant_witness:
  "iControlRest accept_https (Some example_params) = Inr example_params
   \<and> url (params (IControlRestClient example_params None)) = Some ''https://192.168.1.245''
   \<and> accept_https ''https://192.168.1.245'' \<and> \<not> endsWith ''https://192.168.1.245'' ''/''
   \<and> iControlRest accept_https (Some (example_params\<lparr>url := Some ''https://192.168.1.245/''\<rparr>))
       = Inl (Error ''Bad params, url can NOT end with a /'')
   \<and> iControlRest accept_https (Some (example_params\<lparr>pass := None\<rparr>))
       = Inl (Error ''Bad params, pass is required'')"
  using factory_invariant [of accept_https "Some example_params" example_params None]
    factory_invariant [of accept_https
      "Some (example_params\<lparr>url := Some ''https://192.168.1.245/''\<rparr>)" example_params None]
    factory_invariant [of accept_https "Some (example_params\<lparr>pass := None\<rparr>)"
      example_params None]
  by (simp add: iControlRest_def example_params_def accept_https_def endsWith_def
      IControlRestClient_def)

text \<open>Empty credentials pass the checks, which compare with \<open>undefined\<close> only.\<close>

theorem factory_invariant_counterexample:
  "iControlRest accept_https (Some (example_params\<lparr>user := Some '''', pass := Some ''''\<rparr>))
     = Inr (example_params\<lparr>user := Some '''', pass := Some ''''\<rparr>)"
  by (simp add: iControlRest_def example_params_def accept_https_def endsWith_def)

section \<open>Errors\<close>

text \<open>
  C8 (defect). A response with a status other than 200 and no parsed body does not
  produce an API failure: reading \<open>obj.message\<close> throws a \<open>TypeError\<close> inside the
  callback, here on a 204 answer to a \<open>DELETE\<close>. Building the failure should not fail.
\<close>

theorem api_failure_without_body:
  "fst (request (always_reply (replied 204 Undefined))
          (IControlRestClient example_params None)
          \<lparr>method = ''DELETE'', uri = ''/mgmt/tm/ltm/pool/p1'', data = Undefined,
           ignoreTransaction = Undefined\<rparr> []) = Inl TypeError"
  by (simp add: request_outcome always_reply_def replied_def settle_def callback_def
      awaited_def)

text \<open>
  C9 (defect). The error built for a failed dispatch holds the message and the status
  only, although \<open>request\<close> hands the client to the constructor: two different clients get
  equal errors, for an API failure as for a transport failure, so the error does not refer
  back to the client that made the call.
\<close>

theorem error_without_client:
  "IControlRestClient example_params None
     \<noteq> setTransactionId (IControlRestClient example_params None) (Num ''1545'')
   \<and> fst (request (always_reply (replied 404 (Obj [(''message'', Str ''not found'')])))
          (IControlRestClient example_params None) get_pools [])
     = Inl (RestError ''not found'' (Some 404))
   \<and> fst (request (always_reply (replied 404 (Obj [(''message'', Str ''not found'')])))
          (setTransactionId (IControlRestClient example_params None) (Num ''1545'')) get_pools [])
     = Inl (RestError ''not found'' (Some 404))
   \<and> IControlRestError \<lparr>ep_message = Str ''ETIMEDOUT'', ep_httpStatus = None,
         ep_client = IControlRestClient example_params None\<rparr>
     = IControlRestError \<lparr>ep_message = Str ''ETIMEDOUT'', ep_httpStatus = None,
         ep_client = setTransactionId (IControlRestClient example_params None) (Num ''1545'')\<rparr>"
  by (simp add: request_outcome always_reply_def replied_def settle_def callback_def
      awaited_def IControlRestError_def error_text_def IControlRestClient_def
      setTransactionId_def)

section \<open>Expansion of references\<close>

lemma endsWith_stripped: "endsWith k ''Reference'' \<Longrightarrow> stripped k @ ''Reference'' = k"
  unfolding endsWith_def stripped_def
  by (metis append_take_drop_id)

lemma stripped_inj:
  "endsWith k ''Reference'' \<Longrightarrow> endsWith k' ''Reference'' \<Longrightarrow> stripped k = stripped k' \<Longrightarrow> k = k'"
  by (metis endsWith_stripped)

text \<open>A successful answer gives the awaiting code a response that wraps the parsed body.\<close>

lemma request_success:
  assumes "success (net sent (request_options cli rp))"
  shows "request net cli rp sent =
     (Inr (IControlRestResponse (cb_r (net sent (request_options cli rp)))
             (cb_obj (net sent (request_options cli rp))) cli),
      sent @ [request_options cli rp])"
  using assms
  by (auto simp: request_def request_promise_def callback_def awaited_def success_def Let_def)

text \<open>The test of the loop, and the test in the words of the specification.\<close>

lemma well_linked_object: "well_linked parse v \<Longrightarrow> \<exists>qs. v = Obj qs"
  by (cases v) (auto simp: well_linked_def split: if_splits)

lemma reference_field_has_link: "reference_field (k, v) \<Longrightarrow> endsWith k ''Reference'' \<and> has_link v"
  by (cases v) (auto simp: reference_field_def has_link_def)

lemma well_linked_reference_field:
  "endsWith k ''Reference'' \<Longrightarrow> well_linked parse v \<Longrightarrow> reference_field (k, v)"
  by (cases v) (auto simp: reference_field_def well_linked_def split: if_splits option.splits)

lemma expand_loop_skip:
  assumes "get_field d key = Inr val" and "\<not> (endsWith key ''Reference'' \<and> has_link val)"
  shows "expand_loop parse net cli None (key # keys) d sent =
         expand_loop parse net cli None keys d sent"
  using assms by (auto simp: has_link_def split: sum.splits)

lemma expand_loop_reference:
  assumes read: "get_field d key = Inr val" and ends: "endsWith key ''Reference''"
    and linked: "well_linked parse val"
    and ok: "success (net sent (request_options cli (auxiliary_get (link_uri parse val))))"
  shows "expand_loop parse net cli None (key # keys) d sent =
         expand_loop parse net cli None keys
           (set_field d (stripped key)
              (cb_obj (net sent (request_options cli (auxiliary_get (link_uri parse val))))))
           (sent @ [request_options cli (auxiliary_get (link_uri parse val))])"
proof -
  from well_linked_object [OF linked] obtain qs where val: "val = Obj qs" by blast
  from linked obtain s where link: "get_field val ''link'' = Inr (Str s)"
    by (auto simp: well_linked_def split: sum.splits jsval.splits)
  from linked obtain u where parsed: "parse s = Inr u"
    by (cases "parse s") (auto simp: well_linked_def link)
  from linked obtain p q where path: "pathname u = Some p" and query: "search u = Some q"
    by (auto simp: well_linked_def link parsed)
  have uri: "link_uri parse val = null_text (pathname u) @ null_text (search u)"
    by (simp add: link_uri_def link parsed path query path_and_query_def null_text_def)
  have tr: "truthy val" by (simp add: val)
  show ?thesis
    using read ends tr link parsed
      request_success [where net = net and sent = sent and cli = cli
        and rp = "auxiliary_get (link_uri parse val)", OF ok]
    by (simp add: urlmod_parse_def uri [symmetric] auxiliary_get_def stripped_def substr0_def
        IControlRestResponse_def)
qed

lemma assign_Cons: "assign t ((k, v) # s) = assign (put_field k v t) s"
  by (simp add: assign_def)

lemma expand_loop_own:
  assumes dist: "distinct (map fst rest)"
    and vals: "\<forall>f\<in>set rest. endsWith (fst f) ''Reference'' \<longrightarrow> map_of cur (fst f) = Some (snd f)"
    and linked: "\<forall>f\<in>set rest. endsWith (fst f) ''Reference'' \<and> has_link (snd f)
                   \<longrightarrow> well_linked parse (snd f)"
    and ok: "answered net sent (reference_requests parse cli rest)"
    and apart: "\<forall>f\<in>set rest. reference_field f \<longrightarrow> endsWith (stripped (fst f)) ''Reference''
                   \<longrightarrow> stripped (fst f) \<notin> fst ` set rest"
  shows "expand_loop parse net cli None (map fst rest) (Obj cur) sent =
     (Inr (),
      Obj (assign cur (zip (map (stripped \<circ> fst) (filter reference_field rest))
                           (replies net sent (reference_requests parse cli rest)))),
      sent @ reference_requests parse cli rest)"
  using assms
proof (induction rest arbitrary: cur sent)
  case Nil
  then show ?case by (simp add: reference_requests_def assign_def)
next
  case (Cons f rest)
  obtain k v where f: "f = (k, v)" by (cases f)
  have dist: "distinct (map fst rest)"
    using Cons.prems(1) by simp
  have linked: "\<forall>g\<in>set rest. endsWith (fst g) ''Reference'' \<and> has_link (snd g)
                   \<longrightarrow> well_linked parse (snd g)"
    using Cons.prems(3) by simp
  have apart: "\<forall>g\<in>set rest. reference_field g \<longrightarrow> endsWith (stripped (fst g)) ''Reference''
                   \<longrightarrow> stripped (fst g) \<notin> fst ` set rest"
    using Cons.prems(5) by simp
  show ?case
  proof (cases "endsWith k ''Reference'' \<and> has_link v")
    case False
    then have norf: "\<not> reference_field (k, v)"
      using reference_field_has_link by blast
    have read: "get_field (Obj cur) k = Inr (case map_of cur k of None \<Rightarrow> Undefined | Some x \<Rightarrow> x)"
      by (simp split: option.splits)
    have skip: "expand_loop parse net cli None (k # map fst rest) (Obj cur) sent =
                expand_loop parse net cli None (map fst rest) (Obj cur) sent"
    proof (cases "endsWith k ''Reference''")
      case True
      then have "map_of cur k = Some v" using Cons.prems(2) by (simp add: f)
      then have "get_field (Obj cur) k = Inr v" by simp
      from expand_loop_skip [OF this False] show ?thesis .
    next
      case notends: False
      then have "\<not> (endsWith k ''Reference'' \<and>
          has_link (case map_of cur k of None \<Rightarrow> Undefined | Some x \<Rightarrow> x))" by simp
      from expand_loop_skip [OF read this] show ?thesis .
    qed
    have vals: "\<forall>g\<in>set rest. endsWith (fst g) ''Reference'' \<longrightarrow> map_of cur (fst g) = Some (snd g)"
      using Cons.prems(2) by simp
    have ok: "answered net sent (reference_requests parse cli rest)"
      using Cons.prems(4) norf by (simp add: f reference_requests_def)
    from Cons.IH [OF dist vals linked ok apart] skip norf show ?thesis
      by (simp add: f reference_requests_def del: expand_loop.simps)
  next
    case True
    then have ends: "endsWith k ''Reference''" and wl: "well_linked parse v"
      using Cons.prems(3) by (simp_all add: f)
    have rf: "reference_field (k, v)"
      using well_linked_reference_field [OF ends wl] .
    let ?req = "request_options cli (auxiliary_get (link_uri parse v))"
    let ?body = "cb_obj (net sent ?req)"
    have read: "get_field (Obj cur) k = Inr v"
      using Cons.prems(2) ends by (simp add: f)
    have ok1: "success (net sent ?req)"
      and ok: "answered net (sent @ [?req]) (reference_requests parse cli rest)"
      using Cons.prems(4) rf by (simp_all add: f reference_requests_def)
    have step: "expand_loop parse net cli None (k # map fst rest) (Obj cur) sent =
                expand_loop parse net cli None (map fst rest)
                  (Obj (put_field (stripped k) ?body cur)) (sent @ [?req])"
      using expand_loop_reference
        [where d = "Obj cur" and key = k and val = v and parse = parse and net = net
           and sent = sent and cli = cli and keys = "map fst rest", OF read ends wl ok1]
      by (simp del: expand_loop.simps)
    have vals: "\<forall>g\<in>set rest. endsWith (fst g) ''Reference''
        \<longrightarrow> map_of (put_field (stripped k) ?body cur) (fst g) = Some (snd g)"
    proof (intro ballI impI)
      fix g assume g: "g \<in> set rest" and eg: "endsWith (fst g) ''Reference''"
      have "fst g \<noteq> stripped k"
      proof (cases "endsWith (stripped k) ''Reference''")
        case True
        then have "stripped k \<notin> fst ` set rest"
          using Cons.prems(5) rf by (simp add: f)
        then show ?thesis using g by (metis imageI)
      next
        case False
        then show ?thesis using eg by auto
      qed
      moreover have "map_of cur (fst g) = Some (snd g)"
        using Cons.prems(2) g eg by simp
      ultimately show "map_of (put_field (stripped k) ?body cur) (fst g) = Some (snd g)"
        by (simp add: map_of_put_field)
    qed
    from Cons.IH [OF dist vals linked ok apart] step rf show ?thesis
      by (simp add: f reference_requests_def assign_Cons del: expand_loop.simps)
  qed
qed

text \<open>The names under which the fetched payloads are put are pairwise different.\<close>

lemma stripped_names_distinct:
  "distinct (map fst ps) \<Longrightarrow> distinct (map (stripped \<circ> fst) (filter reference_field ps))"
proof (induction ps)
  case Nil
  show ?case by simp
next
  case (Cons f ps)
  have "stripped (fst f) \<notin> (stripped \<circ> fst) ` set (filter reference_field ps)"
    if rf: "reference_field f"
  proof
    assume "stripped (fst f) \<in> (stripped \<circ> fst) ` set (filter reference_field ps)"
    then obtain g where g: "g \<in> set ps" "reference_field g" "stripped (fst g) = stripped (fst f)"
      by auto
    then have "fst g = fst f"
      using rf stripped_inj by (simp add: reference_field_def)
    then have "fst f \<in> fst ` set ps"
      using g(1) by (metis imageI)
    then show False using Cons.prems by simp
  qed
  then show ?case using Cons by simp
qed

lemma length_replies: "length (replies net sent reqs) = length reqs"
  by (induction reqs arbitrary: sent) simp_all

lemma map_of_rev_distinct: "distinct (map fst zs) \<Longrightarrow> map_of (rev zs) = map_of zs"
proof (rule ext)
  fix k assume dist: "distinct (map fst zs)"
  show "map_of (rev zs) k = map_of zs k"
  proof (cases "map_of zs k")
    case None
    then show ?thesis by (simp add: map_of_rev_None)
  next
    case (Some v)
    then have "(k, v) \<in> set (rev zs)" by (simp add: map_of_SomeD)
    moreover have "distinct (map fst (rev zs))" using dist by (simp add: rev_map [symmetric])
    ultimately show ?thesis using Some by simp
  qed
qed

text \<open>
  C4 (amended). Let \<open>expand\<close> run on the response's own payload (no argument, a falsy
  one, or that payload itself), an object (with distinct names, as every object has) in
  which every field with a suffixed name and a value that has a \<open>link\<close> carries a link
  string that the parser accepts and splits into a path and a query, and in which no
  reference field's name, once the suffix is stripped, is the name of a field that ends
  with the suffix too; and let the network answer every request called for with a
  success. Then \<open>expand\<close> completes; the requests made are exactly one \<open>GET\<close> with
  \<open>ignoreTransaction\<close> for each reference field, in the order of the payload, against
  the link's path followed by its query; and the payload afterwards is the one before in
  which each fetched payload has been put, in turn, under the reference field's name
  without the suffix: it replaces a field of that name, every field with a suffixed
  name is as it was, and so is every field whose name is not the stripped name of a
  reference field.
\<close>

theorem expand_own_payload:
  assumes own: "arg = None \<or> (\<exists>d. arg = Some d \<and> \<not> truthy d)"
    and payload: "res_data this = Obj ps" and wf: "distinct (map fst ps)"
    and linked: "\<forall>f\<in>set ps. endsWith (fst f) ''Reference'' \<and> has_link (snd f)
                   \<longrightarrow> well_linked parse (snd f)"
    and ok: "answered net sent reqs"
    and apart: "\<forall>f\<in>set ps. reference_field f \<longrightarrow> endsWith (stripped (fst f)) ''Reference''
                   \<longrightarrow> map_of ps (stripped (fst f)) = None"
    and reqs: "reqs = reference_requests parse (res_client this) ps"
    and names: "names = map (stripped \<circ> fst) (filter reference_field ps)"
    and bodies: "bodies = replies net sent reqs"
    and result: "result = assign ps (zip names bodies)"
  shows "expand parse net this arg sent = (Inr (), Obj result, sent @ reqs) \<and>
         (\<forall>i<length names. map_of result (names ! i) = Some (bodies ! i)) \<and>
         (\<forall>f\<in>set ps. endsWith (fst f) ''Reference'' \<longrightarrow> map_of result (fst f) = Some (snd f)) \<and>
         (\<forall>k. k \<notin> set names \<longrightarrow> map_of result k = map_of ps k)"
proof -
  have vals: "\<forall>f\<in>set ps. endsWith (fst f) ''Reference'' \<longrightarrow> map_of ps (fst f) = Some (snd f)"
    using wf by auto
  have apart': "\<forall>f\<in>set ps. reference_field f \<longrightarrow> endsWith (stripped (fst f)) ''Reference''
                   \<longrightarrow> stripped (fst f) \<notin> fst ` set ps"
    using apart by (simp add: map_of_eq_None_iff)
  have loop: "expand_loop parse net (res_client this) None (map fst ps) (Obj ps) sent
      = (Inr (), Obj result, sent @ reqs)"
    using expand_loop_own [OF wf vals linked ok [unfolded reqs] apart']
    by (simp add: result names bodies reqs)
  have run: "expand parse net this arg sent = (Inr (), Obj result, sent @ reqs)"
    using own loop wf
    by (auto simp: expand_def payload distinct_remdups_id simp del: expand_loop.simps)
  have dist: "distinct names"
    using stripped_names_distinct [OF wf] by (simp add: names)
  have len: "length names = length bodies"
    by (simp add: names bodies reqs length_replies reference_requests_def)
  have lookup: "map_of result = map_of ps ++ map_of (zip names bodies)"
    using dist len by (simp add: result map_of_assign map_of_rev_distinct)
  have put: "\<forall>i<length names. map_of result (names ! i) = Some (bodies ! i)"
    using map_of_zip_nth [OF len dist] len by (simp add: lookup)
  have others: "\<forall>k. k \<notin> set names \<longrightarrow> map_of result k = map_of ps k"
  proof (intro allI impI)
    fix k assume "k \<notin> set names"
    then have "map_of (zip names bodies) k = None"
      using map_of_zip_is_None [OF len] by simp
    then show "map_of result k = map_of ps k"
      by (simp add: lookup map_add_def)
  qed
  have kept: "\<forall>f\<in>set ps. endsWith (fst f) ''Reference'' \<longrightarrow> map_of result (fst f) = Some (snd f)"
  proof (intro ballI impI)
    fix f assume f: "f \<in> set ps" and ends: "endsWith (fst f) ''Reference''"
    have "fst f \<notin> set names"
    proof
      assume "fst f \<in> set names"
      then obtain g where g: "g \<in> set ps" "reference_field g" "fst f = stripped (fst g)"
        by (auto simp: names)
      then have "map_of ps (fst f) = None"
        using apart ends by simp
      then show False using vals f ends by simp
    qed
    then show "map_of result (fst f) = Some (snd f)"
      using others vals f ends by simp
  qed
  from run put kept others show ?thesis by simp
qed

theorem expand_own_payload_witness:
  "expand https_parse appliance
     (response_of (setTransactionId (IControlRestClient example_params None) (Num ''1545''))
        (Obj virtual_server))
     None []
   = (Inr (),
      Obj [(''kind'', Str ''tm:ltm:virtual:virtualstate''),
           (''pool'', pool_p2),
           (''poolReference'', pool_link),
           (''vsIndex'', Num ''200''),
           (''policiesReference'', policies_link),
           (''policies'', policies_v1)],
      [[(''method'', Str ''GET''),
        (''url'', Str ''https://192.168.1.245/mgmt/tm/ltm/pool/p2?ver=13.1.1.2''),
        (''auth'', Obj [(''user'', Str ''admin''), (''pass'', Str ''secret'')]),
        (''headers'', Obj []), (''timeout'', Num ''2000''), (''json'', Bool True),
        (''strictSSL'', Bool False)],
       [(''method'', Str ''GET''),
        (''url'', Str ''https://192.168.1.245/mgmt/tm/ltm/virtual/v1/policies?ver=13.1.1.2''),
        (''auth'', Obj [(''user'', Str ''admin''), (''pass'', Str ''secret'')]),
        (''headers'', Obj []), (''timeout'', Num ''2000''), (''json'', Bool True),
        (''strictSSL'', Bool False)]])"
proof -
  let ?c = "setTransactionId (IControlRestClient example_params None) (Num ''1545'')"
  let ?pool = "[(''method'', Str ''GET''),
        (''url'', Str ''https://192.168.1.245/mgmt/tm/ltm/pool/p2?ver=13.1.1.2''),
        (''auth'', Obj [(''user'', Str ''admin''), (''pass'', Str ''secret'')]),
        (''headers'', Obj []), (''timeout'', Num ''2000''), (''json'', Bool True),
        (''strictSSL'', Bool False)]"
  let ?policies = "[(''method'', Str ''GET''),
        (''url'', Str ''https://192.168.1.245/mgmt/tm/ltm/virtual/v1/policies?ver=13.1.1.2''),
        (''auth'', Obj [(''user'', Str ''admin''), (''pass'', Str ''secret'')]),
        (''headers'', Obj []), (''timeout'', Num ''2000''), (''json'', Bool True),
        (''strictSSL'', Bool False)]"
  have payload: "res_data (response_of ?c (Obj virtual_server)) = Obj virtual_server"
    by (simp add: response_of_def)
  have cli: "res_client (response_of ?c (Obj virtual_server)) = ?c"
    by (simp add: response_of_def)
  have wf: "distinct (map fst virtual_server)"
    by (simp add: virtual_server_def)
  have pool: "well_linked https_parse pool_link"
    by (simp add: well_linked_def pool_link_def https_parse_def in_host_def in_path_def)
  have policies: "well_linked https_parse policies_link"
    by (simp add: well_linked_def policies_link_def https_parse_def in_host_def in_path_def)
  have linked: "\<forall>f\<in>set virtual_server.
      endsWith (fst f) ''Reference'' \<and> has_link (snd f) \<longrightarrow> well_linked https_parse (snd f)"
    using pool policies by (simp add: virtual_server_def endsWith_def)
  have refs: "filter reference_field virtual_server =
      [(''poolReference'', pool_link), (''policiesReference'', policies_link)]"
    by (simp add: virtual_server_def reference_field_def endsWith_def pool_link_def
        policies_link_def)
  have apart: "\<forall>f\<in>set virtual_server. reference_field f \<longrightarrow>
      endsWith (stripped (fst f)) ''Reference'' \<longrightarrow> map_of virtual_server (stripped (fst f)) = None"
    by (simp add: virtual_server_def stripped_def endsWith_def)
  have uri: "link_uri https_parse pool_link = ''/mgmt/tm/ltm/pool/p2?ver=13.1.1.2''"
    "link_uri https_parse policies_link = ''/mgmt/tm/ltm/virtual/v1/policies?ver=13.1.1.2''"
    by (simp_all add: link_uri_def pool_link_def policies_link_def https_parse_def in_host_def
        in_path_def path_and_query_def)
  have opts: "options ?c = []"
    by (simp add: setTransactionId_def IControlRestClient_def)
  have reqs: "reference_requests https_parse ?c virtual_server = [?pool, ?policies]"
    unfolding reference_requests_def refs
    by (simp add: uri request_options_def assign_def put_field_def is_index_def
        digit_value_def auxiliary_get_def request_headers_def setTransactionId_def
        IControlRestClient_def example_params_def field_of_def field_text_def)
  have ok: "answered appliance [] [?pool, ?policies]"
    by (simp add: appliance_def replied_def success_def)
  have bodies: "replies appliance [] [?pool, ?policies] = [pool_p2, policies_v1]"
    by (simp add: appliance_def replied_def)
  have names: "map (stripped \<circ> fst) [(''poolReference'', pool_link),
      (''policiesReference'', policies_link)] = [''pool'', ''policies'']"
    by (simp add: stripped_def)
  have result: "assign virtual_server [(''pool'', pool_p2), (''policies'', policies_v1)] =
      [(''kind'', Str ''tm:ltm:virtual:virtualstate''),
       (''pool'', pool_p2),
       (''poolReference'', pool_link),
       (''vsIndex'', Num ''200''),
       (''policiesReference'', policies_link),
       (''policies'', policies_v1)]"
    by (simp add: assign_def put_field_def virtual_server_def is_index_def digit_value_def)
  have own: "(None :: jsval option) = None \<or> (\<exists>d. (None :: jsval option) = Some d \<and> \<not> truthy d)"
    by simp
  have reqs_eq: "[?pool, ?policies] =
      reference_requests https_parse (res_client (response_of ?c (Obj virtual_server)))
        virtual_server"
    unfolding cli reqs by (rule refl)
  have names_eq: "[''pool'', ''policies''] =
      map (stripped \<circ> fst) (filter reference_field virtual_server)"
    unfolding refs names by (rule refl)
  have bodies_eq: "[pool_p2, policies_v1] = replies appliance [] [?pool, ?policies]"
    unfolding bodies by (rule refl)
  have "expand https_parse appliance (response_of ?c (Obj virtual_server)) None [] =
      (Inr (), Obj (assign virtual_server [(''pool'', pool_p2), (''policies'', policies_v1)]),
       [] @ [?pool, ?policies])"
    using expand_own_payload
      [where arg = None and this = "response_of ?c (Obj virtual_server)"
         and ps = virtual_server and parse = https_parse and net = appliance and sent = "[]"
         and reqs = "[?pool, ?policies]" and names = "[''pool'', ''policies'']"
         and bodies = "[pool_p2, policies_v1]"
         and result = "assign virtual_server [(''pool'', pool_p2), (''policies'', policies_v1)]",
       OF own payload wf linked ok apart reqs_eq names_eq bodies_eq]
    by simp
  then show ?thesis
    by (simp add: result)
qed

text \<open>
  Without the provisos the statement fails, on the response's own payload: a field
  \<open>pool\<close> beside \<open>poolReference\<close>, as in the source's documentation, is overwritten although
  it does not match the convention; a reference field whose stripped name is another
  reference field overwrites that one before it is read, so that it is never dispatched; a
  failing dispatch ends the loop before the later reference fields; a link without query
  is requested with \<open>null\<close> for the query, and the empty link with \<open>null\<close> for both; a
  non-empty string under a suffixed name makes the call fail, and so does a link the parser
  rejects. And when another payload than the response's own is passed, the values are read
  from \<open>this.data\<close>: nothing is fetched for a reference field of the payload passed.
\<close>

theorem expand_counterexample:
  "expand https_parse appliance
     (response_of (IControlRestClient example_params None)
        (Obj [(''pool'', Str ''/Common/p2''), (''poolReference'', pool_link)]))
     None []
   = (Inr (), Obj [(''pool'', pool_p2), (''poolReference'', pool_link)],
      [request_options (IControlRestClient example_params None)
         (auxiliary_get ''/mgmt/tm/ltm/pool/p2?ver=13.1.1.2'')])
   \<and> expand https_parse appliance
     (response_of (IControlRestClient example_params None)
        (Obj [(''aReferenceReference'', pool_link), (''aReference'', policies_link)]))
     None []
   = (Inr (), Obj [(''aReferenceReference'', pool_link), (''aReference'', pool_p2)],
      [request_options (IControlRestClient example_params None)
         (auxiliary_get ''/mgmt/tm/ltm/pool/p2?ver=13.1.1.2'')])
   \<and> expand https_parse (always_reply (replied 404 (Obj [(''message'', Str ''not found'')])))
     (response_of (IControlRestClient example_params None)
        (Obj [(''poolReference'', pool_link), (''policiesReference'', policies_link)]))
     None []
   = (Inl (RestError ''not found'' (Some 404)),
      Obj [(''poolReference'', pool_link), (''policiesReference'', policies_link)],
      [request_options (IControlRestClient example_params None)
         (auxiliary_get ''/mgmt/tm/ltm/pool/p2?ver=13.1.1.2'')])
   \<and> expand https_parse appliance
     (response_of (IControlRestClient example_params None)
        (Obj [(''poolReference'', bare_link)]))
     None []
   = (Inr (), Obj [(''poolReference'', bare_link), (''pool'', policies_v1)],
      [request_options (IControlRestClient example_params None)
         (auxiliary_get ''/mgmt/tm/ltm/pool/p2null'')])
   \<and> expand https_parse appliance
     (response_of (IControlRestClient example_params None)
        (Obj [(''poolReference'', Obj [(''link'', Str '''')])]))
     None []
   = (Inr (), Obj [(''poolReference'', Obj [(''link'', Str '''')]), (''pool'', policies_v1)],
      [request_options (IControlRestClient example_params None)
         (auxiliary_get ''nullnull'')])
   \<and> expand https_parse appliance
     (response_of (IControlRestClient example_params None)
        (Obj [(''poolReference'', Str ''/Common/p2'')]))
     None []
   = (Inl TypeError, Obj [(''poolReference'', Str ''/Common/p2'')], [])
   \<and> expand reject_parse appliance
     (response_of (IControlRestClient example_params None)
        (Obj [(''poolReference'', pool_link)]))
     None []
   = (Inl (Error ''URI malformed''), Obj [(''poolReference'', pool_link)], [])
   \<and> expand https_parse appliance
     (response_of (IControlRestClient example_params None) (Obj []))
     (Some (Obj [(''poolReference'', pool_link)])) []
   = (Inr (), Obj [(''poolReference'', pool_link)], [])"
  by (simp add: expand_def response_of_def endsWith_def pool_link_def policies_link_def
      bare_link_def request_def request_promise_def Let_def appliance_def always_reply_def
      replied_def callback_def awaited_def urlmod_parse_def https_parse_def reject_parse_def
      in_host_def in_path_def null_text_def auxiliary_get_def substr0_def
      IControlRestResponse_def IControlRestError_def error_text_def put_field_def
      is_index_def digit_value_def request_options_def assign_def request_headers_def
      field_of_def field_text_def IControlRestClient_def example_params_def
      pool_p2_def policies_v1_def)

end
